theory Spec2Isabelle
  imports Complex_Main
begin

section \<open>Python strings\<close>

text \<open>
  A Python \<^verbatim>\<open>str\<close> is a sequence of Unicode code points, so it is modelled as a list
  of code points (natural numbers), not as a list of 8-bit characters: the sanitiser
  works on U+3099, U+309A and U+200B. \<open>py\<close> turns an ASCII literal into such a string.
\<close>

type_synonym pystr = "nat list"

definition py :: "string \<Rightarrow> pystr" where
  "py s = map of_char s"

text \<open>Truthiness of \<^verbatim>\<open>str | None\<close>, \<^verbatim>\<open>int | None\<close> and \<^verbatim>\<open>list | None\<close>:
  \<^verbatim>\<open>None\<close>, the empty string, \<^verbatim>\<open>0\<close> and the empty list are false.\<close>

fun truthy_str :: "pystr option \<Rightarrow> bool" where
  "truthy_str None = False"
| "truthy_str (Some s) = (s \<noteq> [])"

fun truthy_int :: "int option \<Rightarrow> bool" where
  "truthy_int None = False"
| "truthy_int (Some n) = (n \<noteq> 0)"

fun truthy_list :: "'a list option \<Rightarrow> bool" where
  "truthy_list None = False"
| "truthy_list (Some xs) = (xs \<noteq> [])"

text \<open>\<^verbatim>\<open>s.replace(old, new)\<close> where \<^verbatim>\<open>old\<close> is a single code point, as in all three
  calls of the sanitiser: every occurrence is replaced, from left to right.\<close>

fun str_replace :: "nat \<Rightarrow> pystr \<Rightarrow> pystr \<Rightarrow> pystr" where
  "str_replace old new [] = []"
| "str_replace old new (c # cs) =
     (if c = old then new @ str_replace old new cs else c # str_replace old new cs)"

text \<open>\<^verbatim>\<open>sep.join(xs)\<close>.\<close>

fun str_join :: "pystr \<Rightarrow> pystr list \<Rightarrow> pystr" where
  "str_join sep [] = []"
| "str_join sep [x] = x"
| "str_join sep (x # y # ys) = x @ sep @ str_join sep (y # ys)"

section \<open>Errors\<close>

text \<open>The exceptions the normaliser can raise on a decoded record: \<^verbatim>\<open>KeyError\<close> from
  \<^verbatim>\<open>d['id']\<close> on a missing key (the spec's MissingField), \<^verbatim>\<open>TypeError\<close> from
  \<^verbatim>\<open>len(None)\<close>, and \<^verbatim>\<open>OverflowError\<close> from \<^verbatim>\<open>round(time() + duration)\<close> when
  the duration is too large for a float. A raise is \<open>Inl\<close>, a returned value is
  \<open>Inr\<close>.\<close>

datatype py_error = KeyError string | TypeError | OverflowError

definition bind_res :: "py_error + 'a \<Rightarrow> ('a \<Rightarrow> py_error + 'b) \<Rightarrow> py_error + 'b" where
  "bind_res r f = (case r of Inl e \<Rightarrow> Inl e | Inr v \<Rightarrow> f v)"

text \<open>A list comprehension whose element expression may raise: elements are built from
  left to right and the first exception ends the comprehension.\<close>

fun map_res :: "('a \<Rightarrow> py_error + 'b) \<Rightarrow> 'a list \<Rightarrow> py_error + 'b list" where
  "map_res f [] = Inr []"
| "map_res f (x # xs) =
     (case f x of
        Inl e \<Rightarrow> Inl e
      | Inr y \<Rightarrow> (case map_res f xs of Inl e \<Rightarrow> Inl e | Inr ys \<Rightarrow> Inr (y # ys)))"

section \<open>Entities\<close>

text \<open>
  The dataclasses of \<^verbatim>\<open>types.py\<close>. Field names carry the class as a prefix, since several
  classes share \<^verbatim>\<open>id\<close>, \<^verbatim>\<open>name\<close>, \<^verbatim>\<open>name_romaji\<close> and \<^verbatim>\<open>image\<close>. The derived
  \<^verbatim>\<open>link\<close> field of Album, Artist, Character and Source (a site URL formatted from the id
  in \<^verbatim>\<open>__post_init__\<close>) is read by none of the functions below and is left out.
\<close>

record Link =
  link_name :: pystr
  link_url :: pystr

datatype link_type = Albums | Artists | Sources

definition cdn :: pystr where
  "cdn = py ''https://cdn.listen.moe''"

text \<open>\<^verbatim>\<open>Link.from_name(type, value)\<close>.\<close>

definition from_name :: "link_type \<Rightarrow> pystr option \<Rightarrow> Link option" where
  "from_name type v =
     (if \<not> truthy_str v then None
      else (case v of
              None \<Rightarrow> None
            | Some val \<Rightarrow>
                Some \<lparr>link_name = val,
                      link_url = (case type of
                                    Albums \<Rightarrow> cdn @ py ''/covers/'' @ val
                                  | Artists \<Rightarrow> cdn @ py ''/artists/'' @ val
                                  | Sources \<Rightarrow> cdn @ py ''/source/'' @ val)\<rparr>))"

record Album =
  album_id :: int
  album_name :: "pystr option"
  album_name_romaji :: "pystr option"
  album_image :: "Link option"

record Character =
  character_id :: int
  character_name :: "pystr option"
  character_name_romaji :: "pystr option"

record Artist =
  artist_id :: int
  artist_name :: "pystr option"
  artist_name_romaji :: "pystr option"
  artist_image :: "Link option"
  artist_character :: "Character list option"

record Source =
  source_id :: int
  source_name :: "pystr option"
  source_name_romaji :: "pystr option"
  source_image :: "Link option"

record Song =
  song_id :: int
  title :: "pystr option"
  sources :: "Source list option"
  artists :: "Artist list option"
  characters :: "Character list option"
  albums :: "Album list option"
  duration :: "int option"
  time_end :: int
  played :: "int option"
  title_romaji :: "pystr option"

section \<open>Raw records\<close>

text \<open>
  A raw record is a decoded JSON object (\<^verbatim>\<open>dict[str, Any]\<close>). Each key the normaliser
  reads is a field of the raw record. For a key read with \<^verbatim>\<open>d.get(key)\<close> the field is
  \<open>None\<close> when the key is missing or null, which \<^verbatim>\<open>get\<close> does not tell apart. For
  \<^verbatim>\<open>id\<close>, read with \<^verbatim>\<open>d['id']\<close>, the field is \<open>None\<close> when the key is missing.
  Present values have the types of the service's payloads: integers for ids, durations
  and play counts, strings for names, titles and image names, lists of objects for
  sub-records.
\<close>

record raw_character =
  rc_id :: "int option"
  rc_name :: "pystr option"
  rc_nameRomaji :: "pystr option"

record raw_source =
  rs_id :: "int option"
  rs_name :: "pystr option"
  rs_nameRomaji :: "pystr option"
  rs_image :: "pystr option"

record raw_artist =
  ra_id :: "int option"
  ra_name :: "pystr option"
  ra_nameRomaji :: "pystr option"
  ra_image :: "pystr option"
  ra_characters :: "raw_character list option"

record raw_album =
  rb_id :: "int option"
  rb_name :: "pystr option"
  rb_nameRomaji :: "pystr option"
  rb_image :: "pystr option"

record raw_song =
  raw_id :: "int option"
  raw_duration :: "int option"
  raw_title :: "pystr option"
  raw_titleRomaji :: "pystr option"
  raw_sources :: "raw_source list option"
  raw_artists :: "raw_artist list option"
  raw_albums :: "raw_album list option"
  raw_characters :: "raw_character list option"
  raw_played :: "int option"

section \<open>Song.from\_data and its helpers\<close>

text \<open>\<^verbatim>\<open>Song._sanitise\<close>.\<close>

definition sanitise :: "pystr option \<Rightarrow> pystr option" where
  "sanitise word =
     (if \<not> truthy_str word then None
      else (case word of
              None \<Rightarrow> None
            | Some w \<Rightarrow>
                Some (str_replace 0x200B []
                       (str_replace 0x309A [0x309C]
                         (str_replace 0x3099 [0x309B] w)))))"

text \<open>\<^verbatim>\<open>Song._get_title\<close>.\<close>

definition get_title :: "raw_song \<Rightarrow> pystr option" where
  "get_title song =
     (let title = raw_title song
      in if truthy_str title then sanitise title else title)"

text \<open>\<^verbatim>\<open>Song._get_sources\<close>; \<open>source_of\<close> is the element expression of its comprehension.\<close>

definition source_of :: "raw_source \<Rightarrow> py_error + Source" where
  "source_of source =
     (case rs_id source of
        None \<Rightarrow> Inl (KeyError ''id'')
      | Some i \<Rightarrow>
          Inr \<lparr>source_id = i,
               source_name = sanitise (rs_name source),
               source_name_romaji = rs_nameRomaji source,
               source_image = from_name Sources (rs_image source)\<rparr>)"

definition get_sources :: "raw_song \<Rightarrow> py_error + Source list option" where
  "get_sources song =
     (let sources = raw_sources song
      in if \<not> truthy_list sources then Inr None
         else (case sources of
                 None \<Rightarrow> Inr None
               | Some xs \<Rightarrow> bind_res (map_res source_of xs) (\<lambda>ys. Inr (Some ys))))"

text \<open>\<^verbatim>\<open>Song._get_artists\<close>. Keyword arguments are evaluated in order, so a missing
  \<^verbatim>\<open>id\<close> raises first; then \<^verbatim>\<open>len(artist.get('characters'))\<close> raises \<^verbatim>\<open>TypeError\<close>
  when the key is missing; then the inner comprehension builds one placeholder
  \<^verbatim>\<open>Character(character['id'])\<close> per entry.\<close>

definition placeholder_of :: "raw_character \<Rightarrow> py_error + Character" where
  "placeholder_of character =
     (case rc_id character of
        None \<Rightarrow> Inl (KeyError ''id'')
      | Some i \<Rightarrow>
          Inr \<lparr>character_id = i, character_name = None, character_name_romaji = None\<rparr>)"

definition artist_of :: "raw_artist \<Rightarrow> py_error + Artist" where
  "artist_of artist =
     (case ra_id artist of
        None \<Rightarrow> Inl (KeyError ''id'')
      | Some i \<Rightarrow>
          bind_res
            (case ra_characters artist of
               None \<Rightarrow> Inl TypeError
             | Some cs \<Rightarrow>
                 if length cs \<noteq> 0
                 then bind_res (map_res placeholder_of cs) (\<lambda>ps. Inr (Some ps))
                 else Inr None)
            (\<lambda>character.
               Inr \<lparr>artist_id = i,
                    artist_name = sanitise (ra_name artist),
                    artist_name_romaji = sanitise (ra_nameRomaji artist),
                    artist_image = from_name Artists (ra_image artist),
                    artist_character = character\<rparr>))"

definition get_artists :: "raw_song \<Rightarrow> py_error + Artist list option" where
  "get_artists song =
     (let artists = raw_artists song
      in if \<not> truthy_list artists then Inr None
         else (case artists of
                 None \<Rightarrow> Inr None
               | Some xs \<Rightarrow> bind_res (map_res artist_of xs) (\<lambda>ys. Inr (Some ys))))"

text \<open>\<^verbatim>\<open>Song._get_albums\<close>.\<close>

definition album_of :: "raw_album \<Rightarrow> py_error + Album" where
  "album_of album =
     (case rb_id album of
        None \<Rightarrow> Inl (KeyError ''id'')
      | Some i \<Rightarrow>
          Inr \<lparr>album_id = i,
               album_name = sanitise (rb_name album),
               album_name_romaji = sanitise (rb_nameRomaji album),
               album_image = from_name Albums (rb_image album)\<rparr>)"

definition get_albums :: "raw_song \<Rightarrow> py_error + Album list option" where
  "get_albums song =
     (let albums = raw_albums song
      in if \<not> truthy_list albums then Inr None
         else (case albums of
                 None \<Rightarrow> Inr None
               | Some xs \<Rightarrow> bind_res (map_res album_of xs) (\<lambda>ys. Inr (Some ys))))"

text \<open>\<^verbatim>\<open>Song._get_characters\<close>.\<close>

definition character_of :: "raw_character \<Rightarrow> py_error + Character" where
  "character_of character =
     (case rc_id character of
        None \<Rightarrow> Inl (KeyError ''id'')
      | Some i \<Rightarrow>
          Inr \<lparr>character_id = i,
               character_name = sanitise (rc_name character),
               character_name_romaji = sanitise (rc_nameRomaji character)\<rparr>)"

definition get_characters :: "raw_song \<Rightarrow> py_error + Character list option" where
  "get_characters song =
     (let characters = raw_characters song
      in if \<not> truthy_list characters then Inr None
         else (case characters of
                 None \<Rightarrow> Inr None
               | Some xs \<Rightarrow> bind_res (map_res character_of xs) (\<lambda>ys. Inr (Some ys))))"

text \<open>Python's \<^verbatim>\<open>round(x)\<close> on a float: to the nearest integer, a tie to the even one.\<close>

definition py_round :: "rat \<Rightarrow> int" where
  "py_round x =
     (let f = \<lfloor>x\<rfloor>; r = x - of_int f
      in if r < 1 / 2 then f
         else if 1 / 2 < r then f + 1
         else if even f then f else f + 1)"

text \<open>
  \<^verbatim>\<open>Song.from_data\<close>. The reading of the clock, \<^verbatim>\<open>time()\<close>, is the parameter \<open>now\<close>:
  seconds since the epoch, a rational number as every float is. The sum
  \<^verbatim>\<open>time() + duration\<close> is a float64 sum: Python converts the integer to a float and
  rounds the exact sum to the nearest float, so it is not the exact sum in general.
  Float64 arithmetic is not modelled here: the sum is the parameter \<open>float_add\<close>, where
  \<open>float_add x n\<close> is the float that \<^verbatim>\<open>x + n\<close> evaluates to, and \<open>None\<close> when
  \<^verbatim>\<open>round(x + n)\<close> raises \<^verbatim>\<open>OverflowError\<close> (an integer too large for a float, or an
  infinite sum). \<^verbatim>\<open>round(time())\<close> involves no addition.

  The entries of the \<^verbatim>\<open>kwargs\<close> dictionary are evaluated in the order written, so
  \<^verbatim>\<open>data['id']\<close> raises before anything else and \<^verbatim>\<open>time_end\<close> is computed before
  the sub-records are built. \<^verbatim>\<open>played\<close> and \<^verbatim>\<open>title_romaji\<close> are passed to the
  constructor only when truthy and default to \<^verbatim>\<open>None\<close>.
\<close>

definition from_data ::
  "(rat \<Rightarrow> int \<Rightarrow> rat option) \<Rightarrow> rat \<Rightarrow> raw_song \<Rightarrow> py_error + Song" where
  "from_data float_add now data =
     (let duration = raw_duration data
      in case raw_id data of
           None \<Rightarrow> Inl (KeyError ''id'')
         | Some i \<Rightarrow>
             bind_res
               (case duration of
                  None \<Rightarrow> Inr (py_round now)
                | Some d \<Rightarrow>
                    if truthy_int duration
                    then (case float_add now d of
                            None \<Rightarrow> Inl OverflowError
                          | Some fsum \<Rightarrow> Inr (py_round fsum))
                    else Inr (py_round now))
               (\<lambda>te.
                 let t = get_title data
                 in bind_res (get_sources data) (\<lambda>srcs.
                    bind_res (get_artists data) (\<lambda>arts.
                    bind_res (get_albums data) (\<lambda>albs.
                    bind_res (get_characters data) (\<lambda>chars.
                      Inr \<lparr>song_id = i,
                           title = t,
                           sources = srcs,
                           artists = arts,
                           characters = chars,
                           albums = albs,
                           duration = duration,
                           time_end = te,
                           played = (let p = raw_played data
                                     in if truthy_int p then p else None),
                           title_romaji = (let p = raw_titleRomaji data
                                           in if truthy_str p then p else None)\<rparr>))))))"

section \<open>Display strings and images\<close>

text \<open>
  \<^verbatim>\<open>_list_to_string\<close> and \<^verbatim>\<open>_get_image\<close> take a list of artists, of sources or of
  albums and read only the attributes the three classes share; \<open>item\<close> is that union.
\<close>

datatype item = ArtistItem Artist | SourceItem Source | AlbumItem Album

fun item_name :: "item \<Rightarrow> pystr option" where
  "item_name (ArtistItem a) = artist_name a"
| "item_name (SourceItem s) = source_name s"
| "item_name (AlbumItem b) = album_name b"

fun item_name_romaji :: "item \<Rightarrow> pystr option" where
  "item_name_romaji (ArtistItem a) = artist_name_romaji a"
| "item_name_romaji (SourceItem s) = source_name_romaji s"
| "item_name_romaji (AlbumItem b) = album_name_romaji b"

fun item_image :: "item \<Rightarrow> Link option" where
  "item_image (ArtistItem a) = artist_image a"
| "item_image (SourceItem s) = source_image s"
| "item_image (AlbumItem b) = album_image b"

text \<open>The loop of \<^verbatim>\<open>Song._list_to_string\<close>; the last argument is \<^verbatim>\<open>lst_string\<close>.\<close>

fun list_to_string_loop :: "item list \<Rightarrow> bool \<Rightarrow> pystr list \<Rightarrow> pystr list" where
  "list_to_string_loop [] romaji_first lst_string = lst_string"
| "list_to_string_loop (item # rest) romaji_first lst_string =
     (let name = (if romaji_first
                  then (if truthy_str (item_name_romaji item) then item_name_romaji item
                        else item_name item)
                  else item_name item)
      in list_to_string_loop rest romaji_first
           (if truthy_str name
            then (case name of None \<Rightarrow> lst_string | Some n \<Rightarrow> lst_string @ [n])
            else lst_string))"

definition list_to_string :: "item list option \<Rightarrow> bool \<Rightarrow> pystr \<Rightarrow> pystr option" where
  "list_to_string lst romaji_first sep =
     (if \<not> truthy_list lst then None
      else (case lst of
              None \<Rightarrow> None
            | Some xs \<Rightarrow> Some (str_join sep (list_to_string_loop xs romaji_first []))))"

definition sources_to_string :: "Song \<Rightarrow> bool \<Rightarrow> pystr \<Rightarrow> pystr option" where
  "sources_to_string self romaji_first sep =
     list_to_string (map_option (map SourceItem) (sources self)) romaji_first sep"

definition albums_to_string :: "Song \<Rightarrow> bool \<Rightarrow> pystr \<Rightarrow> pystr option" where
  "albums_to_string self romji_first sep =
     list_to_string (map_option (map AlbumItem) (albums self)) romji_first sep"

text \<open>
  \<^verbatim>\<open>Song.artists_to_string\<close>. \<open>character_map_of\<close> is the loop filling
  \<^verbatim>\<open>character_map\<close> (a later character with the same id replaces an earlier one).
  \<open>characters_loop\<close> is the inner loop over \<^verbatim>\<open>artist.character\<close>: it assigns
  \<^verbatim>\<open>char_name\<close> at every placeholder found in the map, and a \<^verbatim>\<open>Character\<close> object is
  always truthy. \<open>artists_loop\<close> is the outer loop; its state is \<^verbatim>\<open>char_name\<close>, which
  is set to \<^verbatim>\<open>None\<close> once before the loop and never reset, and \<^verbatim>\<open>lst_string\<close>.
\<close>

fun character_map_of ::
  "Character list \<Rightarrow> (int \<rightharpoonup> Character) \<Rightarrow> (int \<rightharpoonup> Character)" where
  "character_map_of [] character_map = character_map"
| "character_map_of (character # rest) character_map =
     character_map_of rest (character_map(character_id character \<mapsto> character))"

fun characters_loop ::
  "Character list \<Rightarrow> (int \<rightharpoonup> Character) \<Rightarrow> bool \<Rightarrow> pystr option \<Rightarrow> pystr option" where
  "characters_loop [] character_map romaji_first char_name = char_name"
| "characters_loop (character # rest) character_map romaji_first char_name =
     (case character_map (character_id character) of
        None \<Rightarrow> characters_loop rest character_map romaji_first char_name
      | Some char \<Rightarrow>
          characters_loop rest character_map romaji_first
            (if romaji_first
             then (if truthy_str (character_name_romaji char) then character_name_romaji char
                   else character_name char)
             else character_name char))"

fun artists_loop ::
  "Artist list \<Rightarrow> Song \<Rightarrow> (int \<rightharpoonup> Character) \<Rightarrow> bool \<Rightarrow> pystr option \<times> pystr list
     \<Rightarrow> pystr option \<times> pystr list" where
  "artists_loop [] self character_map romaji_first st = st"
| "artists_loop (artist # rest) self character_map romaji_first (char_name, lst_string) =
     (let name = (if romaji_first
                  then (if truthy_str (artist_name_romaji artist) then artist_name_romaji artist
                        else artist_name artist)
                  else artist_name artist)
      in if truthy_list (characters self) \<and> truthy_list (artist_character artist)
         then (let char_name' = (case artist_character artist of
                                   None \<Rightarrow> char_name
                                 | Some cs \<Rightarrow>
                                     characters_loop cs character_map romaji_first char_name)
               in artists_loop rest self character_map romaji_first
                    (char_name',
                     if truthy_str name \<and> truthy_str char_name'
                     then (case (char_name', name) of
                             (Some cn, Some n) \<Rightarrow>
                               lst_string @ [cn @ py '' (CV: '' @ n @ py '')'']
                           | _ \<Rightarrow> lst_string)
                     else lst_string))
         else if truthy_str name
         then artists_loop rest self character_map romaji_first
                (char_name,
                 case name of None \<Rightarrow> lst_string | Some n \<Rightarrow> lst_string @ [n])
         else artists_loop rest self character_map romaji_first (char_name, lst_string))"

definition artists_to_string :: "Song \<Rightarrow> bool \<Rightarrow> pystr \<Rightarrow> pystr option" where
  "artists_to_string self romaji_first sep =
     (if \<not> truthy_list (artists self) then None
      else (let character_map =
                  (if truthy_list (characters self)
                   then (case characters self of
                           None \<Rightarrow> Map.empty
                         | Some cs \<Rightarrow> character_map_of cs Map.empty)
                   else Map.empty)
            in case artists self of
                 None \<Rightarrow> None
               | Some xs \<Rightarrow>
                   Some (str_join sep
                          (snd (artists_loop xs self character_map romaji_first (None, []))))))"

text \<open>\<^verbatim>\<open>Song._get_image\<close>. The loop body leaves the loop at its first item: \<^verbatim>\<open>break\<close>
  (and then \<^verbatim>\<open>return None\<close>) when the item has no image, \<^verbatim>\<open>return\<close> otherwise. A
  \<^verbatim>\<open>Link\<close> object is always truthy.\<close>

fun get_image_loop :: "item list \<Rightarrow> bool \<Rightarrow> pystr option" where
  "get_image_loop [] url = None"
| "get_image_loop (item # rest) url =
     (case item_image item of
        None \<Rightarrow> None
      | Some img \<Rightarrow> if url then Some (link_url img) else Some (link_name img))"

definition get_image :: "item list option \<Rightarrow> bool \<Rightarrow> pystr option" where
  "get_image lst url =
     (if \<not> truthy_list lst then None
      else (case lst of None \<Rightarrow> None | Some xs \<Rightarrow> get_image_loop xs url))"

definition artist_image_of :: "Song \<Rightarrow> bool \<Rightarrow> pystr option" where
  "artist_image_of self url = get_image (map_option (map ArtistItem) (artists self)) url"

definition source_image_of :: "Song \<Rightarrow> bool \<Rightarrow> pystr option" where
  "source_image_of self url = get_image (map_option (map SourceItem) (sources self)) url"

definition album_image_of :: "Song \<Rightarrow> bool \<Rightarrow> pystr option" where
  "album_image_of self url = get_image (map_option (map AlbumItem) (albums self)) url"

section \<open>Definitions used to state the properties\<close>

text \<open>What the specification says the sanitiser does to a present text, in its words:
  every U+3099 becomes U+309B, every U+309A becomes U+309C, every U+200B is removed, and
  nothing else changes.\<close>

definition spec_sanitize_text :: "pystr \<Rightarrow> pystr" where
  "spec_sanitize_text s =
     map (\<lambda>c. if c = 0x3099 then 0x309B else if c = 0x309A then 0x309C else c)
       (filter (\<lambda>c. c \<noteq> 0x200B) s)"

text \<open>The name expression that \<^verbatim>\<open>_list_to_string\<close> and \<^verbatim>\<open>artists_to_string\<close> each write
  out in their loop bodies, as a function of the flag and the two candidate names.\<close>

definition display_name :: "bool \<Rightarrow> pystr option \<Rightarrow> pystr option \<Rightarrow> pystr option" where
  "display_name romaji_first name_romaji name =
     (if romaji_first then (if truthy_str name_romaji then name_romaji else name) else name)"

definition item_display_name :: "bool \<Rightarrow> item \<Rightarrow> pystr option" where
  "item_display_name romaji_first item =
     display_name romaji_first (item_name_romaji item) (item_name item)"

definition artist_display_name :: "bool \<Rightarrow> Artist \<Rightarrow> pystr option" where
  "artist_display_name romaji_first artist =
     display_name romaji_first (artist_name_romaji artist) (artist_name artist)"

text \<open>The fallback chain as the specification words it: the preferred name, and the
  other one when the preferred one is absent, for either value of the flag.\<close>

definition spec_display_name :: "bool \<Rightarrow> pystr option \<Rightarrow> pystr option \<Rightarrow> pystr option" where
  "spec_display_name prefer_romanized romanized localized =
     (if prefer_romanized
      then (if truthy_str romanized then romanized else localized)
      else (if truthy_str localized then localized else romanized))"

text \<open>The names that are shown: the truthy ones, in order.\<close>

fun shown_names :: "pystr option list \<Rightarrow> pystr list" where
  "shown_names [] = []"
| "shown_names (None # ns) = shown_names ns"
| "shown_names (Some n # ns) = (if n = [] then shown_names ns else n # shown_names ns)"

text \<open>An artist is shown without a voiced character when the condition of the first
  branch of the loop body of \<^verbatim>\<open>artists_to_string\<close> is false.\<close>

definition no_voice_role :: "Song \<Rightarrow> Artist \<Rightarrow> bool" where
  "no_voice_role self artist =
     (\<not> (truthy_list (characters self) \<and> truthy_list (artist_character artist)))"

text \<open>The entries of an optional list, and the raw records in which every entry of every
  sub-record list has its \<^verbatim>\<open>id\<close>, respectively every artist its \<^verbatim>\<open>characters\<close> list.\<close>

definition entries_of :: "'a list option \<Rightarrow> 'a list" where
  "entries_of lst = (case lst of None \<Rightarrow> [] | Some xs \<Rightarrow> xs)"

definition artist_has_ids :: "raw_artist \<Rightarrow> bool" where
  "artist_has_ids a =
     (ra_id a \<noteq> None \<and> list_all (\<lambda>c. rc_id c \<noteq> None) (entries_of (ra_characters a)))"

definition entries_have_ids :: "raw_song \<Rightarrow> bool" where
  "entries_have_ids d =
     (list_all (\<lambda>s. rs_id s \<noteq> None) (entries_of (raw_sources d)) \<and>
      list_all artist_has_ids (entries_of (raw_artists d)) \<and>
      list_all (\<lambda>b. rb_id b \<noteq> None) (entries_of (raw_albums d)) \<and>
      list_all (\<lambda>c. rc_id c \<noteq> None) (entries_of (raw_characters d)))"

definition artists_have_characters :: "raw_song \<Rightarrow> bool" where
  "artists_have_characters d =
     list_all (\<lambda>a. ra_characters a \<noteq> None) (entries_of (raw_artists d))"

text \<open>The name shown for a character: the same expression again, written out in the
  inner loop of \<^verbatim>\<open>artists_to_string\<close>.\<close>

definition character_display_name :: "bool \<Rightarrow> Character \<Rightarrow> pystr option" where
  "character_display_name romaji_first char =
     display_name romaji_first (character_name_romaji char) (character_name char)"

text \<open>The character of the song with a given id; the last one in the song's list when
  several have the id.\<close>

fun last_with_id :: "Character list \<Rightarrow> int \<Rightarrow> Character option" where
  "last_with_id [] i = None"
| "last_with_id (c # cs) i =
     (case last_with_id cs i of
        Some c' \<Rightarrow> Some c'
      | None \<Rightarrow> if character_id c = i then Some c else None)"

definition song_character :: "Song \<Rightarrow> int \<Rightarrow> Character option" where
  "song_character self i = last_with_id (entries_of (characters self)) i"

text \<open>The characters of the song that the placeholders of an artist stand for, in the
  order of the placeholders; a placeholder whose id no character of the song has stands
  for none.\<close>

definition voiced_characters :: "Song \<Rightarrow> Artist \<Rightarrow> Character list" where
  "voiced_characters self artist =
     List.map_filter (\<lambda>p. song_character self (character_id p))
       (entries_of (artist_character artist))"

text \<open>The character name shown with an artist: the name of the last of the characters
  its placeholders stand for.\<close>

definition voiced_name :: "bool \<Rightarrow> Song \<Rightarrow> Artist \<Rightarrow> pystr option" where
  "voiced_name romaji_first self artist =
     (case voiced_characters self artist of
        [] \<Rightarrow> None
      | c # cs \<Rightarrow> character_display_name romaji_first (last (c # cs)))"

text \<open>The entry \<^verbatim>\<open>"<character> (CV: <artist>)"\<close>, made when both names are present.\<close>

definition cv_entry :: "pystr option \<Rightarrow> pystr option \<Rightarrow> pystr list" where
  "cv_entry char_name name =
     (case (char_name, name) of
        (Some c, Some n) \<Rightarrow>
          if c \<noteq> [] \<and> n \<noteq> [] then [c @ py '' (CV: '' @ n @ py '')''] else []
      | _ \<Rightarrow> [])"

text \<open>What one artist contributes to the artists display, from the artist and the
  characters of the song alone: its bare name when it is shown without a character, the
  entry with the character's name when its placeholders stand for a character, and
  nothing when they stand for none.\<close>

definition artist_entry :: "bool \<Rightarrow> Song \<Rightarrow> Artist \<Rightarrow> pystr list" where
  "artist_entry romaji_first self artist =
     (if no_voice_role self artist
      then shown_names [artist_display_name romaji_first artist]
      else cv_entry (voiced_name romaji_first self artist)
             (artist_display_name romaji_first artist))"

text \<open>What the artists contribute in order, where \<open>char_name\<close> is the character name
  that the artists before them have left: an artist whose placeholders stand for no
  character of the song is shown with that name.\<close>

fun artist_entries :: "bool \<Rightarrow> Song \<Rightarrow> pystr option \<Rightarrow> Artist list \<Rightarrow> pystr list" where
  "artist_entries romaji_first self char_name [] = []"
| "artist_entries romaji_first self char_name (artist # rest) =
     (if no_voice_role self artist
      then shown_names [artist_display_name romaji_first artist] @
           artist_entries romaji_first self char_name rest
      else (let char_name' = (if voiced_characters self artist = [] then char_name
                              else voiced_name romaji_first self artist)
            in cv_entry char_name' (artist_display_name romaji_first artist) @
               artist_entries romaji_first self char_name' rest))"

text \<open>The artist lists in which no character name is carried from one artist to a later
  one: after an artist whose placeholders stand for a character, every artist is shown
  without a character or has placeholders that stand for one.\<close>

definition stands_alone :: "Song \<Rightarrow> Artist \<Rightarrow> bool" where
  "stands_alone self artist =
     (no_voice_role self artist \<or> voiced_characters self artist \<noteq> [])"

fun no_carry_over :: "Song \<Rightarrow> Artist list \<Rightarrow> bool" where
  "no_carry_over self [] = True"
| "no_carry_over self (artist # rest) =
     (if no_voice_role self artist \<or> voiced_characters self artist = []
      then no_carry_over self rest
      else list_all (stands_alone self) rest)"

subsection \<open>Concrete records\<close>

text \<open>The float sum where it is the exact sum, as it is for the small clock readings
  and durations of the examples below (1000.25 + 120 is 1120.25 in float64 too).\<close>

definition exact_add :: "rat \<Rightarrow> int \<Rightarrow> rat option" where
  "exact_add x n = Some (x + of_int n)"

text \<open>The raw record \<^verbatim>\<open>{"id": i}\<close> and the song it normalises to at clock reading
  \<open>te\<close>; the examples below are updates of the two.\<close>

definition raw_only_id :: "int \<Rightarrow> raw_song" where
  "raw_only_id i =
     \<lparr>raw_id = Some i, raw_duration = None, raw_title = None, raw_titleRomaji = None,
      raw_sources = None, raw_artists = None, raw_albums = None, raw_characters = None,
      raw_played = None\<rparr>"

definition bare_song :: "int \<Rightarrow> int \<Rightarrow> Song" where
  "bare_song i te =
     \<lparr>song_id = i, title = None, sources = None, artists = None, characters = None,
      albums = None, duration = None, time_end = te, played = None, title_romaji = None\<rparr>"

text \<open>\<^verbatim>\<open>{"id": 2, "name": "A"}\<close>: an artist entry with no \<^verbatim>\<open>characters\<close> key.\<close>

definition artist_without_characters :: raw_artist where
  "artist_without_characters =
     \<lparr>ra_id = Some 2, ra_name = Some (py ''A''), ra_nameRomaji = None, ra_image = None,
      ra_characters = None\<rparr>"

text \<open>\<^verbatim>\<open>{"name": "x"}\<close>: a source entry with no \<^verbatim>\<open>id\<close> key.\<close>

definition source_without_id :: raw_source where
  "source_without_id =
     \<lparr>rs_id = None, rs_name = Some (py ''x''), rs_nameRomaji = None, rs_image = None\<rparr>"

text \<open>A source that has a romanized name only, an artist that has both names, an artist
  that has none, and two albums, one with a cover and one without.\<close>

definition romaji_only_source :: Source where
  "romaji_only_source =
     \<lparr>source_id = 1, source_name = None, source_name_romaji = Some (py ''R''),
      source_image = None\<rparr>"

definition two_names_artist :: Artist where
  "two_names_artist =
     \<lparr>artist_id = 1, artist_name = Some (py ''A''), artist_name_romaji = Some (py ''Ra''),
      artist_image = None, artist_character = None\<rparr>"

definition nameless_artist :: Artist where
  "nameless_artist =
     \<lparr>artist_id = 1, artist_name = None, artist_name_romaji = None,
      artist_image = None, artist_character = None\<rparr>"

definition cover :: Link where
  "cover = \<lparr>link_name = py ''c.jpg'', link_url = cdn @ py ''/covers/'' @ py ''c.jpg''\<rparr>"

definition album_without_image :: Album where
  "album_without_image =
     \<lparr>album_id = 1, album_name = Some (py ''X''), album_name_romaji = None, album_image = None\<rparr>"

definition album_with_image :: Album where
  "album_with_image =
     \<lparr>album_id = 2, album_name = Some (py ''Y''), album_name_romaji = None,
      album_image = Some cover\<rparr>"

text \<open>The song of the example: artists A, with no placeholders, and B, with the
  placeholder of character 1; characters: character 1, named C. And a song whose only
  artist, B, has the placeholder of character 2, which the song does not have.\<close>

definition artist_A :: Artist where
  "artist_A =
     \<lparr>artist_id = 1, artist_name = Some (py ''A''), artist_name_romaji = None,
      artist_image = None, artist_character = None\<rparr>"

definition artist_B :: "int \<Rightarrow> Artist" where
  "artist_B i =
     \<lparr>artist_id = 2, artist_name = Some (py ''B''), artist_name_romaji = None,
      artist_image = None,
      artist_character = Some
        [\<lparr>character_id = i, character_name = None, character_name_romaji = None\<rparr>]\<rparr>"

definition character_C :: Character where
  "character_C =
     \<lparr>character_id = 1, character_name = Some (py ''C''), character_name_romaji = None\<rparr>"

definition example_song :: Song where
  "example_song =
     (bare_song 1 0)\<lparr>artists := Some [artist_A, artist_B 1], characters := Some [character_C]\<rparr>"

definition unmatched_song :: Song where
  "unmatched_song =
     (bare_song 1 0)\<lparr>artists := Some [artist_B 2], characters := Some [character_C]\<rparr>"

section \<open>The sanitiser\<close>

lemma str_replace_chain:
  "str_replace 0x200B [] (str_replace 0x309A [0x309C] (str_replace 0x3099 [0x309B] w)) =
   spec_sanitize_text w"
  by (induction w) (simp_all add: spec_sanitize_text_def)

lemma spec_sanitize_text_idem:
  "spec_sanitize_text (spec_sanitize_text w) = spec_sanitize_text w"
  by (induction w) (simp_all add: spec_sanitize_text_def)

lemma spec_sanitize_text_Nil_iff: "spec_sanitize_text w = [] \<longleftrightarrow> set w \<subseteq> {0x200B}"
  by (induction w) (simp_all add: spec_sanitize_text_def)

lemma sanitise_Some:
  "sanitise (Some w) = (if w = [] then None else Some (spec_sanitize_text w))"
  by (simp add: sanitise_def str_replace_chain)

lemma sanitise_None: "sanitise None = None"
  by (simp add: sanitise_def)

text \<open>
  C2, as amended. Sanitising twice gives what sanitising once gives, except when the
  first result is the empty string: that result is sanitised to absent. The first result
  is the empty string exactly for a non-empty input made of U+200B only.
\<close>

theorem sanitise_twice:
  "sanitise (sanitise x) = (if sanitise x = Some [] then None else sanitise x) \<and>
   (sanitise x = Some [] \<longleftrightarrow> (\<exists>w. x = Some w \<and> w \<noteq> [] \<and> set w \<subseteq> {0x200B}))"
proof (cases x)
  case None
  then show ?thesis by (simp add: sanitise_None)
next
  case (Some w)
  then show ?thesis
    by (simp add: sanitise_Some sanitise_None spec_sanitize_text_idem
        spec_sanitize_text_Nil_iff)
qed

text \<open>C2 as stated fails on the string that is a single U+200B: sanitised once it is the
  empty string, sanitised twice it is absent.\<close>

theorem sanitise_not_idempotent:
  "sanitise (sanitise (Some [0x200B])) \<noteq> sanitise (Some [0x200B])"
  by (simp add: sanitise_Some sanitise_None spec_sanitize_text_def)

text \<open>
  C8, as amended. The sanitiser passes absent through, turns the empty string into
  absent, and turns every non-empty string into the present string the specification
  describes: U+3099 replaced by U+309B, U+309A by U+309C, U+200B removed, nothing else
  changed.
\<close>

theorem sanitise_spec:
  "sanitise None = None \<and> sanitise (Some []) = None \<and>
   sanitise (Some (c # cs)) = Some (spec_sanitize_text (c # cs))"
  by (simp add: sanitise_Some sanitise_None)

text \<open>C8 as stated fails on the empty string, for which the result is absent and not
  the (empty) present string.\<close>

theorem sanitise_empty_is_absent: "sanitise (Some []) \<noteq> Some (spec_sanitize_text [])"
  by (simp add: sanitise_Some)

section \<open>Display names\<close>

lemma list_to_string_loop_eq:
  "list_to_string_loop xs rf acc = acc @ shown_names (map (item_display_name rf) xs)"
proof (induction xs arbitrary: acc)
  case Nil
  show ?case by simp
next
  case (Cons x xs)
  show ?case
    by (cases "item_display_name rf x")
       (auto simp: Cons.IH item_display_name_def display_name_def Let_def
             split: option.splits if_splits)
qed

lemma artists_loop_step:
  assumes "no_voice_role self x"
  shows "artists_loop (x # xs) self m rf (cn, acc) =
         artists_loop xs self m rf (cn, list_to_string_loop [ArtistItem x] rf acc)"
proof -
  from assms have g:
    "(truthy_list (characters self) \<and> truthy_list (artist_character x)) = False"
    by (simp add: no_voice_role_def)
  have "artists_loop (x # xs) self m rf (cn, acc) =
     (let name = (if rf
                  then (if truthy_str (artist_name_romaji x) then artist_name_romaji x
                        else artist_name x)
                  else artist_name x)
      in if truthy_str name
         then artists_loop xs self m rf
                (cn, case name of None \<Rightarrow> acc | Some n \<Rightarrow> acc @ [n])
         else artists_loop xs self m rf (cn, acc))"
    unfolding artists_loop.simps g if_False ..
  then show ?thesis by (simp add: Let_def)
qed

lemma artists_loop_no_roles:
  "list_all (no_voice_role self) xs \<Longrightarrow>
   snd (artists_loop xs self m rf (cn, acc)) = list_to_string_loop (map ArtistItem xs) rf acc"
proof (induction xs arbitrary: cn acc)
  case Nil
  show ?case by simp
next
  case (Cons x xs)
  from Cons.prems have nx: "no_voice_role self x"
    and rest: "list_all (no_voice_role self) xs"
    by simp_all
  have "snd (artists_loop (x # xs) self m rf (cn, acc)) =
        list_to_string_loop (map ArtistItem xs) rf (list_to_string_loop [ArtistItem x] rf acc)"
    by (simp only: artists_loop_step [OF nx] Cons.IH [OF rest])
  then show ?case by (simp add: Let_def)
qed

subsection \<open>The artists display, artist by artist\<close>

lemma character_map_of_eq:
  "character_map_of cs m i = (case last_with_id cs i of Some c \<Rightarrow> Some c | None \<Rightarrow> m i)"
  by (induction cs arbitrary: m) (auto split: option.splits)

lemma character_map_is_song_character:
  "(if truthy_list (characters self)
    then (case characters self of
            None \<Rightarrow> Map.empty
          | Some cs \<Rightarrow> character_map_of cs Map.empty)
    else Map.empty) = song_character self"
proof (rule ext)
  fix i
  show "(if truthy_list (characters self)
         then (case characters self of
                 None \<Rightarrow> Map.empty
               | Some cs \<Rightarrow> character_map_of cs Map.empty)
         else Map.empty) i = song_character self i"
  proof (cases "characters self")
    case None
    then show ?thesis by (simp add: song_character_def entries_of_def)
  next
    case (Some cs)
    then show ?thesis
      by (cases cs)
         (simp_all add: song_character_def entries_of_def character_map_of_eq
            split: option.splits)
  qed
qed

lemma characters_loop_eq:
  "characters_loop ps m rf cn =
     (case List.map_filter (\<lambda>p. m (character_id p)) ps of
        [] \<Rightarrow> cn
      | c # cs \<Rightarrow> character_display_name rf (last (c # cs)))"
proof (induction ps arbitrary: cn)
  case Nil
  show ?case by (simp add: List.map_filter_simps)
next
  case (Cons p ps)
  show ?case
  proof (cases "m (character_id p)")
    case None
    then show ?thesis by (simp add: Cons.IH List.map_filter_simps)
  next
    case (Some ch)
    then show ?thesis
      by (simp add: Cons.IH List.map_filter_simps character_display_name_def display_name_def
            split: list.splits)
  qed
qed

lemma cv_entry_append:
  "(if truthy_str name \<and> truthy_str cn
    then (case (cn, name) of
            (Some c, Some n) \<Rightarrow> acc @ [c @ py '' (CV: '' @ n @ py '')'']
          | _ \<Rightarrow> acc)
    else acc) = acc @ cv_entry cn name"
  by (cases cn; cases name) (simp_all add: cv_entry_def)

lemma artists_loop_voiced_step:
  assumes "\<not> no_voice_role self x"
  shows "artists_loop (x # xs) self (song_character self) rf (cn, acc) =
         artists_loop xs self (song_character self) rf
           (if voiced_characters self x = [] then cn else voiced_name rf self x,
            acc @ cv_entry (if voiced_characters self x = [] then cn else voiced_name rf self x)
                    (artist_display_name rf x))"
proof -
  from assms have g:
    "(truthy_list (characters self) \<and> truthy_list (artist_character x)) = True"
    by (simp add: no_voice_role_def)
  from assms obtain ps where ps: "artist_character x = Some ps"
    by (cases "artist_character x") (auto simp: no_voice_role_def)
  have cl: "characters_loop ps (song_character self) rf cn =
      (if voiced_characters self x = [] then cn else voiced_name rf self x)"
    by (simp add: characters_loop_eq voiced_characters_def voiced_name_def ps entries_of_def
          split: list.splits)
  have "artists_loop (x # xs) self (song_character self) rf (cn, acc) =
     (let name = (if rf
                  then (if truthy_str (artist_name_romaji x) then artist_name_romaji x
                        else artist_name x)
                  else artist_name x)
      in (let char_name' = (case artist_character x of
                                   None \<Rightarrow> cn
                                 | Some cs \<Rightarrow>
                                     characters_loop cs (song_character self) rf cn)
               in artists_loop xs self (song_character self) rf
                    (char_name',
                     if truthy_str name \<and> truthy_str char_name'
                     then (case (char_name', name) of
                             (Some cn, Some n) \<Rightarrow>
                               acc @ [cn @ py '' (CV: '' @ n @ py '')'']
                           | _ \<Rightarrow> acc)
                     else acc)))"
    unfolding artists_loop.simps g if_True ..
  then show ?thesis
    by (simp add: Let_def ps cl cv_entry_append artist_display_name_def display_name_def
          del: artists_loop.simps)
qed

lemma artists_loop_entries:
  "snd (artists_loop xs self (song_character self) rf (cn, acc)) =
   acc @ artist_entries rf self cn xs"
proof (induction xs arbitrary: cn acc)
  case Nil
  show ?case by simp
next
  case (Cons x xs)
  show ?case
  proof (cases "no_voice_role self x")
    case True
    have "list_to_string_loop [ArtistItem x] rf acc = acc @ shown_names [artist_display_name rf x]"
      by (simp add: list_to_string_loop_eq item_display_name_def artist_display_name_def
            del: list_to_string_loop.simps)
    with True show ?thesis
      by (simp only: artists_loop_step [OF True] Cons.IH artist_entries.simps if_True
            append_assoc)
  next
    case False
    then show ?thesis
      by (simp only: artists_loop_voiced_step [OF False] Cons.IH artist_entries.simps
            if_False Let_def append_assoc)
  qed
qed

lemma artists_to_string_entries:
  assumes "artists s = Some (a # as)"
  shows "artists_to_string s rf sep = Some (str_join sep (artist_entries rf s None (a # as)))"
proof -
  have "artists_to_string s rf sep =
      Some (str_join sep (snd (artists_loop (a # as) s (song_character s) rf (None, []))))"
    using assms
    by (simp add: artists_to_string_def Let_def character_map_is_song_character
          del: artists_loop.simps)
  then show ?thesis by (simp only: artists_loop_entries append_Nil)
qed

lemma artist_entries_stand_alone:
  "list_all (stands_alone self) xs \<Longrightarrow>
   artist_entries rf self cn xs = concat (map (artist_entry rf self) xs)"
  by (induction xs arbitrary: cn) (auto simp: stands_alone_def artist_entry_def Let_def)

lemma artist_entries_no_carry_over:
  "no_carry_over self xs \<Longrightarrow>
   artist_entries rf self None xs = concat (map (artist_entry rf self) xs)"
proof (induction xs)
  case Nil
  show ?case by simp
next
  case (Cons x xs)
  show ?case
  proof (cases "no_voice_role self x \<or> voiced_characters self x = []")
    case True
    with Cons.prems have "no_carry_over self xs" by simp
    from Cons.IH [OF this] True show ?thesis
      by (auto simp: artist_entry_def Let_def voiced_name_def cv_entry_def)
  next
    case False
    with Cons.prems have "list_all (stands_alone self) xs" by simp
    moreover from False have
      "artist_entry rf self x = cv_entry (voiced_name rf self x) (artist_display_name rf x)"
      by (simp add: artist_entry_def)
    ultimately show ?thesis using False
      by (simp add: artist_entries_stand_alone Let_def)
  qed
qed

lemma example_song_facts:
  shows "artists example_song = Some [artist_A, artist_B 1]"
    and "no_voice_role example_song artist_A"
    and "\<not> no_voice_role example_song (artist_B 1)"
    and "artist_display_name rf artist_A = Some (py ''A'')"
    and "artist_display_name rf (artist_B 1) = Some (py ''B'')"
    and "voiced_characters example_song (artist_B 1) = [character_C]"
    and "voiced_name rf example_song (artist_B 1) = Some (py ''C'')"
proof -
  show "artists example_song = Some [artist_A, artist_B 1]"
    by (simp add: example_song_def)
  show "no_voice_role example_song artist_A"
    by (simp add: no_voice_role_def artist_A_def)
  show "\<not> no_voice_role example_song (artist_B 1)"
    by (simp add: no_voice_role_def artist_B_def example_song_def)
  show "artist_display_name rf artist_A = Some (py ''A'')"
    by (simp add: artist_display_name_def display_name_def artist_A_def)
  show "artist_display_name rf (artist_B 1) = Some (py ''B'')"
    by (simp add: artist_display_name_def display_name_def artist_B_def)
  show vc: "voiced_characters example_song (artist_B 1) = [character_C]"
    by (simp add: voiced_characters_def song_character_def entries_of_def
          List.map_filter_simps example_song_def artist_B_def character_C_def)
  show "voiced_name rf example_song (artist_B 1) = Some (py ''C'')"
    by (simp add: voiced_name_def vc character_display_name_def display_name_def
          character_C_def)
qed

text \<open>
  C3, as amended. For every entry the resolved name is \<open>display_name\<close>: the romanized
  name when romanized is preferred and that name is present, the localized name in every
  other case; so a missing romanized name falls back to the localized one, and a missing
  localized name does not fall back to the romanized one. A non-empty list is displayed
  as the join of the resolved names that are present. The resolution is the same in all
  three displays and for both values of the flag: the sources and albums displays are
  \<open>list_to_string\<close>; the artists display is \<open>list_to_string\<close> when no artist is shown
  with a voiced character, and in every song it is the join of \<open>artist_entries\<close>, in
  which every artist is named by \<open>display_name\<close>, an artist shown without a character
  contributes exactly what \<open>list_to_string\<close> shows for it whatever the other artists
  are, and the character shown with an artist is named by \<open>display_name\<close> too.
\<close>

theorem display_name_resolution:
  "list_to_string (Some (x # xs)) rf sep =
      Some (str_join sep (shown_names (map (item_display_name rf) (x # xs)))) \<and>
   sources_to_string s rf sep =
      list_to_string (map_option (map SourceItem) (sources s)) rf sep \<and>
   albums_to_string s rf sep =
      list_to_string (map_option (map AlbumItem) (albums s)) rf sep \<and>
   (list_all (no_voice_role s) (entries_of (artists s)) \<longrightarrow>
      artists_to_string s rf sep =
      list_to_string (map_option (map ArtistItem) (artists s)) rf sep) \<and>
   (artists s = Some (a # as) \<longrightarrow>
      artists_to_string s rf sep =
      Some (str_join sep (artist_entries rf s None (a # as)))) \<and>
   (no_voice_role s a \<longrightarrow>
      artist_entries rf s cn (a # as) =
      shown_names [item_display_name rf (ArtistItem a)] @ artist_entries rf s cn as) \<and>
   (\<not> no_voice_role s a \<longrightarrow>
      (\<exists>cn'. (cn' = cn \<or> (\<exists>ch. cn' = character_display_name rf ch)) \<and>
         artist_entries rf s cn (a # as) =
         cv_entry cn' (display_name rf (artist_name_romaji a) (artist_name a)) @
         artist_entries rf s cn' as))"
proof -
  have c1: "list_to_string (Some (x # xs)) rf sep =
      Some (str_join sep (shown_names (map (item_display_name rf) (x # xs))))"
    unfolding list_to_string_def
    by (simp add: list_to_string_loop_eq del: list_to_string_loop.simps)
  have c4: "artists_to_string s rf sep =
      list_to_string (map_option (map ArtistItem) (artists s)) rf sep"
    if h: "list_all (no_voice_role s) (entries_of (artists s))"
  proof (cases "artists s")
    case None
    then show ?thesis by (simp add: artists_to_string_def list_to_string_def)
  next
    case (Some as)
    with h have "list_all (no_voice_role s) as" by (simp add: entries_of_def)
    then show ?thesis using Some
      by (simp add: artists_to_string_def list_to_string_def Let_def artists_loop_no_roles)
  qed
  have c5: "artists_to_string s rf sep =
      Some (str_join sep (artist_entries rf s None (a # as)))"
    if "artists s = Some (a # as)"
    by (rule artists_to_string_entries [OF that])
  have c6: "artist_entries rf s cn (a # as) =
      shown_names [item_display_name rf (ArtistItem a)] @ artist_entries rf s cn as"
    if "no_voice_role s a"
    using that by (simp add: item_display_name_def artist_display_name_def)
  have c7: "\<exists>cn'. (cn' = cn \<or> (\<exists>ch. cn' = character_display_name rf ch)) \<and>
         artist_entries rf s cn (a # as) =
         cv_entry cn' (display_name rf (artist_name_romaji a) (artist_name a)) @
         artist_entries rf s cn' as"
    if nv: "\<not> no_voice_role s a"
  proof (cases "voiced_characters s a")
    case Nil
    with nv have "artist_entries rf s cn (a # as) =
         cv_entry cn (display_name rf (artist_name_romaji a) (artist_name a)) @
         artist_entries rf s cn as"
      by (simp add: Let_def artist_display_name_def)
    then show ?thesis by blast
  next
    case (Cons c cs)
    with nv have "artist_entries rf s cn (a # as) =
         cv_entry (character_display_name rf (last (c # cs)))
           (display_name rf (artist_name_romaji a) (artist_name a)) @
         artist_entries rf s (character_display_name rf (last (c # cs))) as"
      by (simp add: Let_def artist_display_name_def voiced_name_def)
    then show ?thesis by blast
  qed
  from c1 c4 c5 c6 c7 show ?thesis
    by (simp add: sources_to_string_def albums_to_string_def)
qed

text \<open>The artist with both names and no character is displayed by its romanized name
  when romanized is preferred, as \<open>list_to_string\<close> displays it; and in the song of
  the example, where A is shown without a character and B with one, A contributes what
  \<open>list_to_string\<close> shows for it and the display is \<open>"A, C (CV: B)"\<close>.\<close>

theorem display_name_resolution_witness:
  "list_all (no_voice_role ((bare_song 1 0)\<lparr>artists := Some [two_names_artist]\<rparr>))
     (entries_of (artists ((bare_song 1 0)\<lparr>artists := Some [two_names_artist]\<rparr>))) \<and>
   artists_to_string ((bare_song 1 0)\<lparr>artists := Some [two_names_artist]\<rparr>) True (py '', '') =
     list_to_string (Some [ArtistItem two_names_artist]) True (py '', '') \<and>
   list_to_string (Some [ArtistItem two_names_artist]) True (py '', '') = Some (py ''Ra'') \<and>
   artists example_song = Some [artist_A, artist_B 1] \<and>
   no_voice_role example_song artist_A \<and>
   \<not> no_voice_role example_song (artist_B 1) \<and>
   artists_to_string example_song True (py '', '') =
     Some (str_join (py '', '') (artist_entries True example_song None [artist_A, artist_B 1])) \<and>
   artist_entries True example_song None [artist_A, artist_B 1] =
     shown_names [item_display_name True (ArtistItem artist_A)] @
     artist_entries True example_song None [artist_B 1] \<and>
   artist_entries True example_song None [artist_A, artist_B 1] = [py ''A'', py ''C (CV: B)'']"
proof -
  have h: "list_all (no_voice_role ((bare_song 1 0)\<lparr>artists := Some [two_names_artist]\<rparr>))
     (entries_of (artists ((bare_song 1 0)\<lparr>artists := Some [two_names_artist]\<rparr>)))"
    by (simp add: entries_of_def no_voice_role_def bare_song_def)
  note e1 = example_song_facts(1) and e2 = example_song_facts(2)
    and e3 = example_song_facts(3)
  have e4: "artist_entries True example_song None [artist_A, artist_B 1] =
      [py ''A'', py ''C (CV: B)'']"
    by (simp add: example_song_facts Let_def cv_entry_def) (simp add: py_def)
  from
    display_name_resolution
      [where x = "ArtistItem two_names_artist" and xs = "[]" and rf = True
         and sep = "py '', ''" and s = "(bare_song 1 0)\<lparr>artists := Some [two_names_artist]\<rparr>"]
    h
  have w1: "artists_to_string ((bare_song 1 0)\<lparr>artists := Some [two_names_artist]\<rparr>) True
        (py '', '') = list_to_string (Some [ArtistItem two_names_artist]) True (py '', '')"
    and w2: "list_to_string (Some [ArtistItem two_names_artist]) True (py '', '') =
        Some (py ''Ra'')"
    by (simp_all add: item_display_name_def display_name_def two_names_artist_def py_def)
  from
    display_name_resolution
      [where s = example_song and a = artist_A and as = "[artist_B 1]" and rf = True
         and sep = "py '', ''" and cn = None]
    e1 e2
  have w3: "artists_to_string example_song True (py '', '') =
        Some (str_join (py '', '') (artist_entries True example_song None [artist_A, artist_B 1]))"
    and w4: "artist_entries True example_song None [artist_A, artist_B 1] =
        shown_names [item_display_name True (ArtistItem artist_A)] @
        artist_entries True example_song None [artist_B 1]"
    by blast+
  from h w1 w2 e1 e2 e3 w3 w4 e4 show ?thesis by blast
qed

text \<open>C3 as stated fails for a source with a romanized name only when localized is
  preferred: the fallback of the specification resolves it to the romanized name, the
  display skips the entry and is the empty string.\<close>

theorem no_fallback_to_romaji:
  "spec_display_name False (source_name_romaji romaji_only_source)
     (source_name romaji_only_source) = Some (py ''R'') \<and>
   sources_to_string ((bare_song 1 0)\<lparr>sources := Some [romaji_only_source]\<rparr>) False (py '', '')
     = Some []"
  by (simp add: spec_display_name_def romaji_only_source_def sources_to_string_def
      list_to_string_def bare_song_def Let_def py_def)

text \<open>
  C9, as amended. For the song whose artists are A (no placeholders) and B (with the
  placeholder of character 1) and whose characters are character 1, named C, the artists
  display with localized names preferred and separator \<open>", "\<close> is \<open>"A, C (CV: B)"\<close>,
  the other fields of the song, the artists' ids and their images being arbitrary. In
  general, when no character name is carried from one artist to a later one, the display
  joins, in the order of the artists, what each artist contributes by itself: its bare
  name when it has no placeholders or the song has no characters; the entry
  \<^verbatim>\<open>"<character> (CV: <artist>)"\<close> with the character of the song that its last matching
  placeholder stands for, when a placeholder matches and both names are present; and
  nothing, not its bare name, when it has placeholders and none matches.
\<close>

theorem artists_to_string_example:
  "artists_to_string
     \<lparr>song_id = sid, title = t, sources = srcs,
      artists = Some
        [\<lparr>artist_id = a1, artist_name = Some (py ''A''), artist_name_romaji = None,
          artist_image = i1, artist_character = None\<rparr>,
         \<lparr>artist_id = a2, artist_name = Some (py ''B''), artist_name_romaji = None,
          artist_image = i2,
          artist_character = Some
            [\<lparr>character_id = 1, character_name = None, character_name_romaji = None\<rparr>]\<rparr>],
      characters = Some
        [\<lparr>character_id = 1, character_name = Some (py ''C''), character_name_romaji = None\<rparr>],
      albums = albs, duration = d, time_end = te, played = p, title_romaji = tr\<rparr>
     False (py '', '') = Some (py ''A, C (CV: B)'') \<and>
   (artists s = Some (a # as) \<and> no_carry_over s (a # as) \<longrightarrow>
      artists_to_string s rf sep =
      Some (str_join sep (concat (map (artist_entry rf s) (a # as)))))"
proof -
  have ex: "artists_to_string
     \<lparr>song_id = sid, title = t, sources = srcs,
      artists = Some
        [\<lparr>artist_id = a1, artist_name = Some (py ''A''), artist_name_romaji = None,
          artist_image = i1, artist_character = None\<rparr>,
         \<lparr>artist_id = a2, artist_name = Some (py ''B''), artist_name_romaji = None,
          artist_image = i2,
          artist_character = Some
            [\<lparr>character_id = 1, character_name = None, character_name_romaji = None\<rparr>]\<rparr>],
      characters = Some
        [\<lparr>character_id = 1, character_name = Some (py ''C''), character_name_romaji = None\<rparr>],
      albums = albs, duration = d, time_end = te, played = p, title_romaji = tr\<rparr>
     False (py '', '') = Some (py ''A, C (CV: B)'')"
    by (simp add: artists_to_string_def Let_def py_def)
  have rule: "artists_to_string s rf sep =
      Some (str_join sep (concat (map (artist_entry rf s) (a # as))))"
    if "artists s = Some (a # as)" and "no_carry_over s (a # as)"
    using artists_to_string_entries [OF that(1), of rf sep]
      artist_entries_no_carry_over [OF that(2), of rf]
    by simp
  from ex rule show ?thesis by blast
qed

text \<open>The song of the example, by the general rule: A contributes its bare name and B
  the entry with the name of character 1.\<close>

theorem artists_to_string_example_witness:
  "artists example_song = Some [artist_A, artist_B 1] \<and>
   no_carry_over example_song [artist_A, artist_B 1] \<and>
   artists_to_string example_song False (py '', '') =
     Some (str_join (py '', '')
            (concat (map (artist_entry False example_song) [artist_A, artist_B 1]))) \<and>
   artist_entry False example_song artist_A = [py ''A''] \<and>
   artist_entry False example_song (artist_B 1) = [py ''C (CV: B)''] \<and>
   artists_to_string example_song False (py '', '') = Some (py ''A, C (CV: B)'')"
proof -
  note e1 = example_song_facts(1)
  have e4: "no_carry_over example_song [artist_A, artist_B 1]"
    by (simp add: example_song_facts)
  have e5: "artist_entry False example_song artist_A = [py ''A'']"
    by (simp add: artist_entry_def example_song_facts) (simp add: py_def)
  have e6: "artist_entry False example_song (artist_B 1) = [py ''C (CV: B)'']"
    by (simp add: artist_entry_def example_song_facts cv_entry_def) (simp add: py_def)
  from
    artists_to_string_example
      [where s = example_song and a = artist_A and as = "[artist_B 1]" and rf = False
         and sep = "py '', ''"]
    e1 e4
  have w: "artists_to_string example_song False (py '', '') =
     Some (str_join (py '', '')
            (concat (map (artist_entry False example_song) [artist_A, artist_B 1])))"
    by blast
  have "artists_to_string example_song False (py '', '') = Some (py ''A, C (CV: B)'')"
    unfolding w by (simp add: e5 e6) (simp add: py_def)
  with e1 e4 w e5 e6 show ?thesis by blast
qed

text \<open>C9 as stated fails for the song whose only artist, B, has the placeholder of
  character 2 while the song has character 1 only: B has no matching placeholder, and it
  is not shown by its bare name; the display is the empty string.\<close>

theorem unmatched_artist_is_skipped:
  "artists unmatched_song = Some [artist_B 2] \<and>
   voiced_characters unmatched_song (artist_B 2) = [] \<and>
   artist_display_name False (artist_B 2) = Some (py ''B'') \<and>
   artists_to_string unmatched_song False (py '', '') = Some [] \<and>
   artists_to_string unmatched_song False (py '', '') \<noteq> Some (py ''B'')"
  by (simp add: unmatched_song_def artist_B_def character_C_def bare_song_def
      voiced_characters_def song_character_def entries_of_def List.map_filter_simps
      artist_display_name_def display_name_def artists_to_string_def Let_def py_def)

text \<open>The rule above leaves out the lists in which a character name is carried over.
  There the second artist, whose placeholder stands for no character of the song, is
  shown with the character of the first: \<^verbatim>\<open>char_name\<close> is set once before the loop and
  not reset for each artist.\<close>

lemma carried_character_name:
  "\<not> no_carry_over
       ((bare_song 1 0)\<lparr>artists := Some [artist_B 1, artist_B 2],
                        characters := Some [character_C]\<rparr>)
       [artist_B 1, artist_B 2] \<and>
   artists_to_string
     ((bare_song 1 0)\<lparr>artists := Some [artist_B 1, artist_B 2],
                      characters := Some [character_C]\<rparr>)
     False (py '', '') = Some (py ''C (CV: B), C (CV: B)'')"
  by (simp add: artist_B_def character_C_def bare_song_def no_voice_role_def
      stands_alone_def voiced_characters_def song_character_def entries_of_def
      List.map_filter_simps artists_to_string_def Let_def py_def)

lemma artists_loop_skip:
  assumes "\<not> truthy_str (artist_display_name rf x)"
  shows "\<exists>cn'. artists_loop (x # xs) self m rf (cn, acc) =
               artists_loop xs self m rf (cn', acc)"
proof -
  from assms have n:
    "truthy_str (if rf then (if truthy_str (artist_name_romaji x) then artist_name_romaji x
                             else artist_name x)
                 else artist_name x) = False"
    by (simp add: artist_display_name_def display_name_def)
  show ?thesis
    unfolding artists_loop.simps Let_def n by (auto split: option.splits)
qed

lemma artists_loop_all_skipped:
  "list_all (\<lambda>a. \<not> truthy_str (artist_display_name rf a)) xs \<Longrightarrow>
   snd (artists_loop xs self m rf (cn, acc)) = acc"
proof (induction xs arbitrary: cn)
  case Nil
  show ?case by simp
next
  case (Cons x xs)
  from Cons.prems have hx: "\<not> truthy_str (artist_display_name rf x)"
    and rest: "list_all (\<lambda>a. \<not> truthy_str (artist_display_name rf a)) xs"
    by simp_all
  from artists_loop_skip [OF hx] obtain cn' where
    "artists_loop (x # xs) self m rf (cn, acc) = artists_loop xs self m rf (cn', acc)"
    by blast
  then show ?case by (simp only: Cons.IH [OF rest])
qed

lemma artists_to_string_None_iff:
  "artists_to_string s rf sep = None \<longleftrightarrow> \<not> truthy_list (artists s)"
  by (cases "artists s") (simp_all add: artists_to_string_def Let_def)

text \<open>
  C10. The artists display is absent exactly when the artist list is absent or empty;
  when the list is non-empty and the resolved name of every artist is absent (or empty),
  the display is the empty string.
\<close>

theorem artists_to_string_empty_not_absent:
  "(artists_to_string s rf sep = None \<longleftrightarrow> artists s = None \<or> artists s = Some []) \<and>
   (artists s = Some (x # xs) \<and>
    list_all (\<lambda>a. \<not> truthy_str (artist_display_name rf a)) (x # xs) \<longrightarrow>
      artists_to_string s rf sep = Some [])"
proof -
  have a: "artists_to_string s rf sep = None \<longleftrightarrow> artists s = None \<or> artists s = Some []"
    by (cases "artists s") (simp_all add: artists_to_string_None_iff)
  have b: "artists_to_string s rf sep = Some []"
    if "artists s = Some (x # xs)"
      and "list_all (\<lambda>a. \<not> truthy_str (artist_display_name rf a)) (x # xs)"
    using that(1) artists_loop_all_skipped [OF that(2)]
    by (simp add: artists_to_string_def Let_def del: artists_loop.simps)
  from a b show ?thesis by blast
qed

text \<open>A song whose only artist has no name is displayed as the empty string.\<close>

theorem artists_to_string_empty_not_absent_witness:
  "artists ((bare_song 1 0)\<lparr>artists := Some [nameless_artist]\<rparr>) = Some [nameless_artist] \<and>
   list_all (\<lambda>a. \<not> truthy_str (artist_display_name False a)) [nameless_artist] \<and>
   artists_to_string ((bare_song 1 0)\<lparr>artists := Some [nameless_artist]\<rparr>) False (py '', '')
     = Some [] \<and>
   artists_to_string ((bare_song 1 0)\<lparr>artists := Some [nameless_artist]\<rparr>) False (py '', '')
     \<noteq> None"
proof -
  have h1: "artists ((bare_song 1 0)\<lparr>artists := Some [nameless_artist]\<rparr>) =
      Some [nameless_artist]"
    by simp
  have h2: "list_all (\<lambda>a. \<not> truthy_str (artist_display_name False a)) [nameless_artist]"
    by (simp add: artist_display_name_def display_name_def nameless_artist_def)
  from artists_to_string_empty_not_absent
    [of "(bare_song 1 0)\<lparr>artists := Some [nameless_artist]\<rparr>" False "py '', ''"
        nameless_artist "[]"] h1 h2
  show ?thesis by simp
qed

section \<open>Images\<close>

text \<open>
  C6. The image of an absent or empty list is absent. Otherwise the first entry decides:
  when it has no image the result is absent whatever the later entries are, and when it
  has one the result is that image's URL or name. In particular the album image of a
  song whose albums are one without an image followed by any other one is absent.
\<close>

theorem get_image_first_gap_stops:
  "get_image None url = None \<and> get_image (Some []) url = None \<and>
   (item_image item = None \<longrightarrow> get_image (Some (item # rest)) url = None) \<and>
   (item_image item = Some l \<longrightarrow>
      get_image (Some (item # rest)) url = Some (if url then link_url l else link_name l)) \<and>
   (album_image b1 = None \<longrightarrow> album_image_of (s\<lparr>albums := Some [b1, b2]\<rparr>) url = None)"
  by (simp add: get_image_def album_image_of_def)

text \<open>Albums without and with a cover, in both orders.\<close>

theorem get_image_first_gap_stops_witness:
  "album_image album_without_image = None \<and>
   album_image album_with_image = Some cover \<and>
   album_image_of ((bare_song 1 0)\<lparr>albums := Some [album_without_image, album_with_image]\<rparr>)
     False = None \<and>
   get_image (Some [AlbumItem album_without_image, AlbumItem album_with_image]) True = None \<and>
   get_image (Some [AlbumItem album_with_image, AlbumItem album_without_image]) False =
     Some (py ''c.jpg'')"
proof -
  have h1: "album_image album_without_image = None"
    by (simp add: album_without_image_def)
  have h2: "item_image (AlbumItem album_without_image) = None"
    by (simp add: album_without_image_def)
  have h3: "item_image (AlbumItem album_with_image) = Some cover"
    by (simp add: album_with_image_def)
  from
    get_image_first_gap_stops
      [where url = True and item = "AlbumItem album_without_image"
         and rest = "[AlbumItem album_with_image]" and l = cover
         and ?b1.0 = album_without_image and s = "bare_song 1 0"
         and ?b2.0 = album_with_image]
    get_image_first_gap_stops
      [where url = False and item = "AlbumItem album_with_image"
         and rest = "[AlbumItem album_without_image]" and l = cover
         and ?b1.0 = album_without_image and s = "bare_song 1 0"
         and ?b2.0 = album_with_image]
    h1 h2 h3
  show ?thesis by (simp add: cover_def album_with_image_def)
qed

section \<open>Normalisation\<close>

subsection \<open>Where a KeyError comes from\<close>

lemma map_res_KeyError:
  assumes "\<And>x. f x = Inl (KeyError k) \<Longrightarrow> k = ''id'' \<and> \<not> P x"
    and "map_res f xs = Inl (KeyError k)"
  shows "k = ''id'' \<and> \<not> list_all P xs"
  using assms(2)
proof (induction xs)
  case Nil
  then show ?case by simp
next
  case (Cons x xs)
  then show ?case using assms(1) [of x]
    by (auto split: sum.splits)
qed

lemma source_of_KeyError:
  "source_of x = Inl (KeyError k) \<Longrightarrow> k = ''id'' \<and> \<not> rs_id x \<noteq> None"
  by (simp add: source_of_def split: option.splits)

lemma album_of_KeyError:
  "album_of x = Inl (KeyError k) \<Longrightarrow> k = ''id'' \<and> \<not> rb_id x \<noteq> None"
  by (simp add: album_of_def split: option.splits)

lemma character_of_KeyError:
  "character_of x = Inl (KeyError k) \<Longrightarrow> k = ''id'' \<and> \<not> rc_id x \<noteq> None"
  by (simp add: character_of_def split: option.splits)

lemma placeholder_of_KeyError:
  "placeholder_of x = Inl (KeyError k) \<Longrightarrow> k = ''id'' \<and> \<not> rc_id x \<noteq> None"
  by (simp add: placeholder_of_def split: option.splits)

lemma artist_of_KeyError:
  assumes "artist_of a = Inl (KeyError k)"
  shows "k = ''id'' \<and> \<not> artist_has_ids a"
proof (cases "ra_id a")
  case None
  with assms show ?thesis by (simp add: artist_of_def artist_has_ids_def)
next
  case (Some i)
  show ?thesis
  proof (cases "ra_characters a")
    case None
    with Some assms show ?thesis by (simp add: artist_of_def bind_res_def)
  next
    case cs: (Some cs)
    from assms Some cs have "map_res placeholder_of cs = Inl (KeyError k)"
      by (simp add: artist_of_def bind_res_def split: if_splits sum.splits)
    from map_res_KeyError
      [of placeholder_of k "\<lambda>c. rc_id c \<noteq> None", OF placeholder_of_KeyError this]
    show ?thesis using cs by (simp add: artist_has_ids_def entries_of_def)
  qed
qed

lemma get_sources_KeyError:
  assumes "get_sources d = Inl (KeyError k)"
  shows "k = ''id'' \<and> \<not> list_all (\<lambda>s. rs_id s \<noteq> None) (entries_of (raw_sources d))"
proof (cases "raw_sources d")
  case None
  with assms show ?thesis by (simp add: get_sources_def)
next
  case (Some xs)
  with assms have "map_res source_of xs = Inl (KeyError k)"
    by (simp add: get_sources_def bind_res_def split: if_splits sum.splits)
  from map_res_KeyError [of source_of k "\<lambda>s. rs_id s \<noteq> None", OF source_of_KeyError this]
  show ?thesis using Some by (simp add: entries_of_def)
qed

lemma get_artists_KeyError:
  assumes "get_artists d = Inl (KeyError k)"
  shows "k = ''id'' \<and> \<not> list_all artist_has_ids (entries_of (raw_artists d))"
proof (cases "raw_artists d")
  case None
  with assms show ?thesis by (simp add: get_artists_def)
next
  case (Some xs)
  with assms have "map_res artist_of xs = Inl (KeyError k)"
    by (simp add: get_artists_def bind_res_def split: if_splits sum.splits)
  from map_res_KeyError [of artist_of k artist_has_ids, OF artist_of_KeyError this]
  show ?thesis using Some by (simp add: entries_of_def)
qed

lemma get_albums_KeyError:
  assumes "get_albums d = Inl (KeyError k)"
  shows "k = ''id'' \<and> \<not> list_all (\<lambda>b. rb_id b \<noteq> None) (entries_of (raw_albums d))"
proof (cases "raw_albums d")
  case None
  with assms show ?thesis by (simp add: get_albums_def)
next
  case (Some xs)
  with assms have "map_res album_of xs = Inl (KeyError k)"
    by (simp add: get_albums_def bind_res_def split: if_splits sum.splits)
  from map_res_KeyError [of album_of k "\<lambda>b. rb_id b \<noteq> None", OF album_of_KeyError this]
  show ?thesis using Some by (simp add: entries_of_def)
qed

lemma get_characters_KeyError:
  assumes "get_characters d = Inl (KeyError k)"
  shows "k = ''id'' \<and> \<not> list_all (\<lambda>c. rc_id c \<noteq> None) (entries_of (raw_characters d))"
proof (cases "raw_characters d")
  case None
  with assms show ?thesis by (simp add: get_characters_def)
next
  case (Some xs)
  with assms have "map_res character_of xs = Inl (KeyError k)"
    by (simp add: get_characters_def bind_res_def split: if_splits sum.splits)
  from map_res_KeyError
    [of character_of k "\<lambda>c. rc_id c \<noteq> None", OF character_of_KeyError this]
  show ?thesis using Some by (simp add: entries_of_def)
qed

lemma from_data_no_id: "raw_id d = None \<Longrightarrow> from_data fadd now d = Inl (KeyError ''id'')"
  by (simp add: from_data_def)

lemma from_data_KeyError:
  assumes "from_data fadd now d = Inl (KeyError k)" and "raw_id d = Some i"
  shows "k = ''id'' \<and> \<not> entries_have_ids d"
proof -
  from assms have
    "get_sources d = Inl (KeyError k) \<or> get_artists d = Inl (KeyError k) \<or>
     get_albums d = Inl (KeyError k) \<or> get_characters d = Inl (KeyError k)"
    by (simp add: from_data_def bind_res_def Let_def
        split: sum.splits option.splits if_splits)
  then show ?thesis
    using get_sources_KeyError [of d k] get_artists_KeyError [of d k]
      get_albums_KeyError [of d k] get_characters_KeyError [of d k]
    by (auto simp: entries_have_ids_def)
qed

text \<open>
  C5, as amended. Normalisation of a raw record without a song id raises KeyError (the
  MissingField of the specification), so no song is returned. Conversely a KeyError is
  always about the key \<open>id\<close>, and it is raised only when the song id is missing or when
  an entry of the sources, artists, albums or characters, or a character entry of an
  artist, lacks its own id.
\<close>

theorem from_data_missing_field:
  "(raw_id d = None \<longrightarrow> from_data fadd now d = Inl (KeyError ''id'')) \<and>
   (from_data fadd now d = Inl (KeyError k) \<longrightarrow>
      k = ''id'' \<and> (raw_id d = None \<or> \<not> entries_have_ids d))"
proof (cases "raw_id d")
  case None
  then show ?thesis by (simp add: from_data_no_id)
next
  case (Some i)
  then show ?thesis using from_data_KeyError [of fadd now d k i] by simp
qed

text \<open>The record without an id, and the record whose only source has no id.\<close>

theorem from_data_missing_field_witness:
  "raw_id ((raw_only_id 1)\<lparr>raw_id := None\<rparr>) = None \<and>
   from_data exact_add 0 ((raw_only_id 1)\<lparr>raw_id := None\<rparr>) = Inl (KeyError ''id'') \<and>
   from_data exact_add 0 ((raw_only_id 1)\<lparr>raw_sources := Some [source_without_id]\<rparr>) =
     Inl (KeyError ''id'') \<and>
   \<not> entries_have_ids ((raw_only_id 1)\<lparr>raw_sources := Some [source_without_id]\<rparr>)"
proof -
  have a: "raw_id ((raw_only_id 1)\<lparr>raw_id := None\<rparr>) = None"
    by simp
  have b: "from_data exact_add 0 ((raw_only_id 1)\<lparr>raw_sources := Some [source_without_id]\<rparr>) =
      Inl (KeyError ''id'')"
    by (simp add: from_data_def raw_only_id_def source_without_id_def get_sources_def
        source_of_def bind_res_def Let_def)
  have c: "raw_id ((raw_only_id 1)\<lparr>raw_sources := Some [source_without_id]\<rparr>) \<noteq> None"
    by (simp add: raw_only_id_def)
  from
    from_data_missing_field
      [where d = "(raw_only_id 1)\<lparr>raw_id := None\<rparr>" and now = 0 and k = "''id''" and fadd = exact_add]
    from_data_missing_field
      [where d = "(raw_only_id 1)\<lparr>raw_sources := Some [source_without_id]\<rparr>"
         and now = 0 and k = "''id''" and fadd = exact_add]
    a b c
  show ?thesis by (simp add: raw_only_id_def)
qed

text \<open>C5 as stated fails for the record \<^verbatim>\<open>{"id": 1, "sources": [{"name": "x"}]}\<close>: it
  has a song id and its normalisation raises KeyError all the same.\<close>

theorem from_data_KeyError_with_song_id:
  "raw_id ((raw_only_id 1)\<lparr>raw_sources := Some [source_without_id]\<rparr>) = Some 1 \<and>
   from_data exact_add 0 ((raw_only_id 1)\<lparr>raw_sources := Some [source_without_id]\<rparr>) =
     Inl (KeyError ''id'')"
  by (simp add: from_data_def raw_only_id_def source_without_id_def get_sources_def
      source_of_def bind_res_def Let_def)

subsection \<open>The fields of a normalised song\<close>

lemma py_round_close: "\<bar>of_int (py_round x) - x\<bar> \<le> 1 / 2"
proof -
  have "of_int \<lfloor>x\<rfloor> \<le> x" and "x < of_int \<lfloor>x\<rfloor> + 1"
    by linarith+
  then show ?thesis by (auto simp: py_round_def Let_def)
qed

lemma py_round_of_int: "py_round (of_int n) = n"
  by (simp add: py_round_def)

lemma py_round_0: "py_round 0 = 0"
  using py_round_of_int [of 0] by simp

lemma from_data_fields:
  assumes "from_data fadd now d = Inr s"
  shows "(case raw_duration d of
            None \<Rightarrow> time_end s = py_round now
          | Some dur \<Rightarrow>
              if dur = 0 then time_end s = py_round now
              else \<exists>fsum. fadd now dur = Some fsum \<and> time_end s = py_round fsum)"
    and "duration s = raw_duration d"
    and "played s = (if truthy_int (raw_played d) then raw_played d else None)"
    and "Some (song_id s) = raw_id d"
    and "title s = get_title d"
    and "title_romaji s = (if truthy_str (raw_titleRomaji d) then raw_titleRomaji d else None)"
  using assms
  by (auto simp: from_data_def bind_res_def Let_def split: option.splits sum.splits if_splits)

lemma from_data_only_id: "from_data exact_add 0 (raw_only_id i) = Inr (bare_song i 0)"
  by (simp add: from_data_def raw_only_id_def bare_song_def get_sources_def get_artists_def
      get_albums_def get_characters_def get_title_def bind_res_def Let_def py_round_0)

text \<open>
  C7, as amended. When the raw record has a duration other than 0, the expiry of the
  normalised song is the float sum of the clock reading and the duration, rounded to a
  whole number of seconds (a tie to the even one); when it has no duration, or the
  duration 0, the expiry is the clock reading rounded to a whole number of seconds, not
  the clock reading itself. For a duration of 120 the expiry is within one second of
  \<open>now + 120\<close> whenever the float sum is within half a second of the exact sum.
\<close>

theorem from_data_time_end:
  assumes "from_data fadd now d = Inr s"
  shows "(raw_duration d = None \<or> raw_duration d = Some 0 \<longrightarrow> time_end s = py_round now) \<and>
         (\<forall>dur. raw_duration d = Some dur \<and> dur \<noteq> 0 \<longrightarrow>
            (\<exists>fsum. fadd now dur = Some fsum \<and> time_end s = py_round fsum)) \<and>
         (\<forall>fsum. raw_duration d = Some 120 \<and> fadd now 120 = Some fsum \<and>
            \<bar>fsum - (now + 120)\<bar> < 1 / 2 \<longrightarrow>
            \<bar>of_int (time_end s) - (now + 120)\<bar> < 1)"
proof -
  note f = from_data_fields(1) [OF assms]
  have a: "time_end s = py_round now" if "raw_duration d = None \<or> raw_duration d = Some 0"
    using f that by auto
  have b: "\<exists>fsum. fadd now dur = Some fsum \<and> time_end s = py_round fsum"
    if "raw_duration d = Some dur" and "dur \<noteq> 0" for dur
    using f that by simp
  have c: "\<bar>of_int (time_end s) - (now + 120)\<bar> < 1"
    if d: "raw_duration d = Some 120" and t: "fadd now 120 = Some fsum"
      and close: "\<bar>fsum - (now + 120)\<bar> < 1 / 2" for fsum
  proof -
    from b [OF d] t have e: "time_end s = py_round fsum" by simp
    show ?thesis unfolding e using py_round_close [of fsum] close by linarith
  qed
  from a b c show ?thesis by blast
qed

text \<open>The record \<^verbatim>\<open>{"id": 1, "duration": 120}\<close> normalised at clock reading 1000.25,
  where the float sum 1120.25 is exact, expires at 1120.\<close>

theorem from_data_time_end_witness:
  "from_data exact_add (4001 / 4) ((raw_only_id 1)\<lparr>raw_duration := Some 120\<rparr>) =
     Inr ((bare_song 1 1120)\<lparr>duration := Some 120\<rparr>) \<and>
   exact_add (4001 / 4) 120 = Some (4481 / 4) \<and>
   time_end ((bare_song 1 1120)\<lparr>duration := Some 120\<rparr>) = py_round (4481 / 4) \<and>
   \<bar>of_int (time_end ((bare_song 1 1120)\<lparr>duration := Some 120\<rparr>)) - (4001 / 4 + 120 :: rat)\<bar>
     < 1"
proof -
  have fl: "\<lfloor>4481 / 4 :: rat\<rfloor> = 1120"
    by (rule floor_unique) simp_all
  have r: "py_round (4481 / 4) = 1120"
    using fl by (simp add: py_round_def Let_def)
  have h: "from_data exact_add (4001 / 4) ((raw_only_id 1)\<lparr>raw_duration := Some 120\<rparr>) =
      Inr ((bare_song 1 1120)\<lparr>duration := Some 120\<rparr>)"
    by (simp add: from_data_def exact_add_def raw_only_id_def bare_song_def get_sources_def
        get_artists_def get_albums_def get_characters_def get_title_def bind_res_def Let_def r)
  have p1: "raw_duration ((raw_only_id 1)\<lparr>raw_duration := Some 120\<rparr>) = Some 120"
    by simp
  have p2: "exact_add (4001 / 4) 120 = Some (4481 / 4)"
    by (simp add: exact_add_def)
  have p3: "\<bar>4481 / 4 - (4001 / 4 + 120 :: rat)\<bar> < 1 / 2"
    by simp
  from from_data_time_end [OF h] p1 p2 p3
  have "\<bar>of_int (time_end ((bare_song 1 1120)\<lparr>duration := Some 120\<rparr>)) -
      (4001 / 4 + 120 :: rat)\<bar> < 1"
    by blast
  with h p2 show ?thesis
    by (simp add: bare_song_def r)
qed

text \<open>C7 as stated fails for the record \<^verbatim>\<open>{"id": 1}\<close> normalised at clock reading
  1000.25: it has no duration and its expiry is 1000, not the clock reading.\<close>

theorem from_data_time_end_is_rounded:
  "raw_duration (raw_only_id 1) = None \<and>
   from_data exact_add (4001 / 4) (raw_only_id 1) = Inr (bare_song 1 1000) \<and>
   of_int (time_end (bare_song 1 1000)) \<noteq> (4001 / 4 :: rat)"
proof -
  have fl: "\<lfloor>4001 / 4 :: rat\<rfloor> = 1000"
    by (rule floor_unique) simp_all
  have r: "py_round (4001 / 4) = 1000"
    using fl by (simp add: py_round_def Let_def)
  show ?thesis
    by (simp add: from_data_def raw_only_id_def bare_song_def get_sources_def
        get_artists_def get_albums_def get_characters_def get_title_def bind_res_def Let_def r)
qed

text \<open>Why the float sum is not replaced by the exact sum. The clock reading
  2147483548.4999998 is the float \<open>2147483548 + 1/2 - 1/4194304\<close>; with the duration 201
  float64 rounds the sum to 2147483749.5, which \<^verbatim>\<open>round\<close> takes to the even 2147483750,
  while the exact sum rounds to 2147483749.\<close>

lemma float_sum_is_not_exact_sum:
  assumes "fadd (2147483548 + 1 / 2 - 1 / 4194304) 201 = Some (4294967499 / 2)"
    and "from_data fadd (2147483548 + 1 / 2 - 1 / 4194304)
           ((raw_only_id 1)\<lparr>raw_duration := Some 201\<rparr>) = Inr s"
  shows "time_end s = 2147483750"
    and "py_round (2147483548 + 1 / 2 - 1 / 4194304 + of_int 201) = 2147483749"
proof -
  have f1: "\<lfloor>4294967499 / 2 :: rat\<rfloor> = 2147483749"
    by (rule floor_unique) simp_all
  have r1: "py_round (4294967499 / 2) = 2147483750"
    using f1 by (simp add: py_round_def Let_def)
  from from_data_fields(1) [OF assms(2)] obtain fsum where
    a: "fadd (2147483548 + 1 / 2 - 1 / 4194304) 201 = Some fsum"
    and b: "time_end s = py_round fsum"
    by auto
  from a assms(1) have "fsum = 4294967499 / 2"
    by simp
  with b r1 show "time_end s = 2147483750"
    by (simp only:)
  have f2: "\<lfloor>2147483548 + 1 / 2 - 1 / 4194304 + 201 :: rat\<rfloor> = 2147483749"
    by (rule floor_unique) simp_all
  show "py_round (2147483548 + 1 / 2 - 1 / 4194304 + of_int 201) = 2147483749"
    using f2 by (simp add: py_round_def Let_def)
qed

text \<open>
  C4, as amended. A play count other than 0 is carried into the song unchanged; when the
  raw record has no play count, or has the play count 0, the play count of the song is
  absent.
\<close>

theorem from_data_played:
  assumes "from_data fadd now d = Inr s"
  shows "played s =
           (case raw_played d of None \<Rightarrow> None | Some p \<Rightarrow> if p = 0 then None else Some p)"
  using from_data_fields(3) [OF assms] by (simp split: option.splits)

text \<open>The record \<^verbatim>\<open>{"id": 1, "played": 7}\<close> keeps its play count.\<close>

theorem from_data_played_witness:
  "from_data exact_add 0 ((raw_only_id 1)\<lparr>raw_played := Some 7\<rparr>) =
     Inr ((bare_song 1 0)\<lparr>played := Some 7\<rparr>) \<and>
   played ((bare_song 1 0)\<lparr>played := Some 7\<rparr>) = Some 7"
proof -
  have h: "from_data exact_add 0 ((raw_only_id 1)\<lparr>raw_played := Some 7\<rparr>) =
      Inr ((bare_song 1 0)\<lparr>played := Some 7\<rparr>)"
    by (simp add: from_data_def raw_only_id_def bare_song_def get_sources_def get_artists_def
        get_albums_def get_characters_def get_title_def bind_res_def Let_def py_round_0)
  from from_data_played [OF h] h show ?thesis
    by (simp add: raw_only_id_def)
qed

text \<open>C4 as stated fails for the record \<^verbatim>\<open>{"id": 1, "played": 0}\<close>: it has a play count
  and the play count of the song is absent.\<close>

theorem from_data_drops_zero_played:
  "raw_played ((raw_only_id 1)\<lparr>raw_played := Some 0\<rparr>) = Some 0 \<and>
   from_data exact_add 0 ((raw_only_id 1)\<lparr>raw_played := Some 0\<rparr>) = Inr (bare_song 1 0) \<and>
   played (bare_song 1 0) = None"
  by (simp add: from_data_def raw_only_id_def bare_song_def get_sources_def get_artists_def
      get_albums_def get_characters_def get_title_def bind_res_def Let_def py_round_0)

subsection \<open>Absent sub-records\<close>

lemma map_res_total:
  "list_all (\<lambda>x. \<exists>y. f x = Inr y) xs \<Longrightarrow> \<exists>ys. map_res f xs = Inr ys"
  by (induction xs) auto

lemma artist_of_total:
  assumes "artist_has_ids a" and "ra_characters a \<noteq> None"
  shows "\<exists>y. artist_of a = Inr y"
proof -
  from assms obtain i cs where i: "ra_id a = Some i" and cs: "ra_characters a = Some cs"
    by (auto simp: artist_has_ids_def)
  from assms(1) cs have "list_all (\<lambda>c. \<exists>y. placeholder_of c = Inr y) cs"
    by (auto simp: artist_has_ids_def entries_of_def placeholder_of_def list_all_iff)
  from map_res_total [OF this] obtain ps where "map_res placeholder_of cs = Inr ps" ..
  with i cs show ?thesis by (simp add: artist_of_def bind_res_def)
qed

text \<open>Normalisation returns a song for every raw record that has a song id, in which
  every sub-record entry has its id and every artist entry has a character list
  (possibly empty), and whose duration, if any, is not too large for a float;
  sub-record lists may be absent.\<close>

lemma from_data_total:
  assumes "raw_id d = Some i" and "entries_have_ids d" and "artists_have_characters d"
    and "\<And>dur. raw_duration d = Some dur \<Longrightarrow> dur \<noteq> 0 \<Longrightarrow> fadd now dur \<noteq> None"
  shows "\<exists>s. from_data fadd now d = Inr s"
proof -
  have "\<exists>ys. get_sources d = Inr ys"
  proof (cases "raw_sources d")
    case None
    then show ?thesis by (simp add: get_sources_def)
  next
    case (Some xs)
    with assms(2) have "list_all (\<lambda>x. \<exists>y. source_of x = Inr y) xs"
      by (auto simp: entries_have_ids_def entries_of_def source_of_def list_all_iff)
    from map_res_total [OF this] Some show ?thesis
      by (auto simp: get_sources_def bind_res_def)
  qed
  moreover have "\<exists>ys. get_artists d = Inr ys"
  proof (cases "raw_artists d")
    case None
    then show ?thesis by (simp add: get_artists_def)
  next
    case (Some xs)
    with assms(2,3) have "list_all (\<lambda>x. \<exists>y. artist_of x = Inr y) xs"
      by (auto simp: entries_have_ids_def artists_have_characters_def entries_of_def
            list_all_iff intro!: artist_of_total)
    from map_res_total [OF this] Some show ?thesis
      by (auto simp: get_artists_def bind_res_def)
  qed
  moreover have "\<exists>ys. get_albums d = Inr ys"
  proof (cases "raw_albums d")
    case None
    then show ?thesis by (simp add: get_albums_def)
  next
    case (Some xs)
    with assms(2) have "list_all (\<lambda>x. \<exists>y. album_of x = Inr y) xs"
      by (auto simp: entries_have_ids_def entries_of_def album_of_def list_all_iff)
    from map_res_total [OF this] Some show ?thesis
      by (auto simp: get_albums_def bind_res_def)
  qed
  moreover have "\<exists>ys. get_characters d = Inr ys"
  proof (cases "raw_characters d")
    case None
    then show ?thesis by (simp add: get_characters_def)
  next
    case (Some xs)
    with assms(2) have "list_all (\<lambda>x. \<exists>y. character_of x = Inr y) xs"
      by (auto simp: entries_have_ids_def entries_of_def character_of_def list_all_iff)
    from map_res_total [OF this] Some show ?thesis
      by (auto simp: get_characters_def bind_res_def)
  qed
  moreover have "\<exists>te.
      (case raw_duration d of
         None \<Rightarrow> Inr (py_round now)
       | Some dur \<Rightarrow>
           if truthy_int (raw_duration d)
           then (case fadd now dur of
                   None \<Rightarrow> Inl OverflowError
                 | Some fsum \<Rightarrow> Inr (py_round fsum))
           else Inr (py_round now)) = (Inr te :: py_error + int)"
    using assms(4) by (auto split: option.splits)
  ultimately show ?thesis using assms(1)
    by (auto simp: from_data_def bind_res_def Let_def)
qed

text \<open>
  C1. The raw record \<^verbatim>\<open>{"id": 1, "artists": [{"id": 2, "name": "A"}]}\<close> has a song id
  and an artist entry without the \<^verbatim>\<open>characters\<close> key. Its normalisation does not
  return a song with an artist whose character list is absent: it raises \<^verbatim>\<open>TypeError\<close>,
  from \<^verbatim>\<open>len(None)\<close>, at every clock reading.
\<close>

theorem from_data_artist_without_characters:
  "from_data fadd now ((raw_only_id 1)\<lparr>raw_artists := Some [artist_without_characters]\<rparr>) =
     Inl TypeError"
  by (simp add: from_data_def raw_only_id_def artist_without_characters_def get_sources_def
      get_artists_def artist_of_def bind_res_def Let_def)

end
